theory Spec2Isabelle
  imports Complex_Main
begin

section \<open>Exceptions, tensors and elementary tensor operations\<close>

text \<open>
  The notebook \<^verbatim>\<open>tf_from_scratch.ipynb\<close> defines the modules of a Transformer encoder on
  top of a tensor library. Each module class becomes a record of its attributes, each
  constructor a function that returns either the exception it raises or the instance, and
  each \<^verbatim>\<open>forward\<close> a function on tensors.

  Conventions of the embedding:
  \<^item> 32-bit floating point numbers are idealised by \<^typ>\<open>real\<close>: rounding, overflow, infinities
    and NaN are not represented.
  \<^item> a tensor of rank \<open>n\<close> is an \<open>n\<close>-fold nested list, outermost axis first; the inputs of
    the modules are rectangular. An axis of size 0 hides the sizes of the axes below it, so
    a shape check below an empty axis cannot fail in the model.
  \<^item> the weights that the library draws at random when a layer is created are arguments of
    the constructors, and have the shape the layer gives them.
  \<^item> the Bernoulli sample that a dropout layer draws in a call is an argument of that call
    (a predicate on the multi-index of an element, true when the element is kept).
\<close>

datatype pyerror =
    AssertionError | TypeError | ValueError | RuntimeError | ZeroDivisionError | IndexError

type_synonym vec = "real list"
type_synonym mat = "real list list"
type_synonym tensor3 = "real list list list"
type_synonym tensor4 = "real list list list list"
type_synonym noise = "nat list \<Rightarrow> bool"

definition andthen :: "pyerror + 'a \<Rightarrow> ('a \<Rightarrow> pyerror + 'b) \<Rightarrow> pyerror + 'b" where
  "andthen m f = (case m of Inl e \<Rightarrow> Inl e | Inr v \<Rightarrow> f v)"

fun sequence :: "(pyerror + 'a) list \<Rightarrow> pyerror + 'a list" where
  "sequence [] = Inr []"
| "sequence (m # ms) =
     (case m of Inl e \<Rightarrow> Inl e
      | Inr v \<Rightarrow> (case sequence ms of Inl e \<Rightarrow> Inl e | Inr vs \<Rightarrow> Inr (v # vs)))"

text \<open>
  Broadcasting of one axis, as the library does it for a binary operation on two tensors:
  the sizes agree, or one of them is 1 and that operand is repeated; anything else raises.
\<close>

definition broadcast2 ::
  "('a \<Rightarrow> 'b \<Rightarrow> pyerror + 'c) \<Rightarrow> 'a list \<Rightarrow> 'b list \<Rightarrow> pyerror + 'c list" where
  "broadcast2 f xs ys =
     (if length xs = length ys then sequence (map2 f xs ys)
      else if length xs = 1 then sequence (map (f (xs ! 0)) ys)
      else if length ys = 1 then sequence (map (\<lambda>x. f x (ys ! 0)) xs)
      else Inl RuntimeError)"

text \<open>
  Broadcasting of one axis of the second operand onto the shape of the first (the
  expansion used by \<^verbatim>\<open>masked_fill\<close>): only the second operand may be repeated.
\<close>

definition broadcast_onto ::
  "('a \<Rightarrow> 'b \<Rightarrow> pyerror + 'c) \<Rightarrow> 'a list \<Rightarrow> 'b list \<Rightarrow> pyerror + 'c list" where
  "broadcast_onto f xs ys =
     (if length ys = length xs then sequence (map2 f xs ys)
      else if length ys = 1 then sequence (map (\<lambda>x. f x (ys ! 0)) xs)
      else Inl RuntimeError)"

definition tensor_add :: "tensor3 \<Rightarrow> tensor3 \<Rightarrow> pyerror + tensor3" where
  "tensor_add = broadcast2 (broadcast2 (broadcast2 (\<lambda>a b. Inr (a + b))))"

definition dot :: "vec \<Rightarrow> vec \<Rightarrow> real" where
  "dot u v = sum_list (map2 (*) u v)"

text \<open>
  \<^verbatim>\<open>nn.Linear\<close>: the weight has one row per output feature; the call raises when the last
  axis of the input is not \<^verbatim>\<open>in_features\<close> long.
\<close>

definition linear :: "nat \<Rightarrow> mat \<Rightarrow> vec option \<Rightarrow> tensor3 \<Rightarrow> pyerror + tensor3" where
  "linear in_features w b x =
     (if list_all (list_all (\<lambda>row. length row = in_features)) x
      then Inr (map (map (\<lambda>row.
             (case b of None \<Rightarrow> map (dot row) w
              | Some bs \<Rightarrow> map2 (\<lambda>wr c. dot row wr + c) w bs))) x)
      else Inl RuntimeError)"

subsection \<open>Dropout\<close>

record Dropout =
  dropout_p :: real
  dropout_training :: bool

text \<open>\<^verbatim>\<open>nn.Dropout(p)\<close> rejects a probability outside \<open>[0, 1]\<close>; a new module is in training mode.\<close>

definition Dropout_init :: "real \<Rightarrow> pyerror + Dropout" where
  "Dropout_init p =
     (if p < 0 \<or> 1 < p then Inl ValueError
      else Inr \<lparr>dropout_p = p, dropout_training = True\<rparr>)"

definition drop1 :: "real \<Rightarrow> noise \<Rightarrow> nat list \<Rightarrow> vec \<Rightarrow> vec" where
  "drop1 p keep pre xs =
     map (\<lambda>i. if keep (pre @ [i]) then xs ! i / (1 - p) else 0) [0..<length xs]"

definition drop2 :: "real \<Rightarrow> noise \<Rightarrow> nat list \<Rightarrow> mat \<Rightarrow> mat" where
  "drop2 p keep pre m = map (\<lambda>i. drop1 p keep (pre @ [i]) (m ! i)) [0..<length m]"

definition drop3 :: "real \<Rightarrow> noise \<Rightarrow> nat list \<Rightarrow> tensor3 \<Rightarrow> tensor3" where
  "drop3 p keep pre x = map (\<lambda>i. drop2 p keep (pre @ [i]) (x ! i)) [0..<length x]"

definition drop4 :: "real \<Rightarrow> noise \<Rightarrow> tensor4 \<Rightarrow> tensor4" where
  "drop4 p keep x = map (\<lambda>i. drop3 p keep [i] (x ! i)) [0..<length x]"

text \<open>
  The call of a dropout layer: the input itself when the layer is in evaluation mode or
  \<open>p = 0\<close>, zeros when \<open>p = 1\<close>, otherwise the kept elements scaled by \<open>1 / (1 - p)\<close>.
\<close>

definition Dropout_forward :: "Dropout \<Rightarrow> noise \<Rightarrow> tensor3 \<Rightarrow> tensor3" where
  "Dropout_forward d keep x =
     (if dropout_p d = 0 \<or> \<not> dropout_training d then x
      else if dropout_p d = 1 then map (map (map (\<lambda>_. 0))) x
      else drop3 (dropout_p d) keep [] x)"

definition Dropout_forward4 :: "Dropout \<Rightarrow> noise \<Rightarrow> tensor4 \<Rightarrow> tensor4" where
  "Dropout_forward4 d keep x =
     (if dropout_p d = 0 \<or> \<not> dropout_training d then x
      else if dropout_p d = 1 then map (map (map (map (\<lambda>_. 0)))) x
      else drop4 (dropout_p d) keep x)"

section \<open>InputEmbedding\<close>

record InputEmbedding =
  ie_d_model :: int
  ie_vocab_size :: int
  ie_embedding :: mat

definition InputEmbedding_init :: "int \<Rightarrow> int \<Rightarrow> mat \<Rightarrow> pyerror + InputEmbedding" where
  "InputEmbedding_init d_model vocab_size table =
     (if d_model < 0 \<or> vocab_size < 0 then Inl RuntimeError
      else Inr \<lparr>ie_d_model = d_model, ie_vocab_size = vocab_size, ie_embedding = table\<rparr>)"

definition embedding_lookup :: "InputEmbedding \<Rightarrow> int \<Rightarrow> pyerror + vec" where
  "embedding_lookup m tok =
     (if 0 \<le> tok \<and> tok < ie_vocab_size m \<and> nat tok < length (ie_embedding m)
      then Inr (ie_embedding m ! nat tok) else Inl IndexError)"

definition InputEmbedding_forward :: "InputEmbedding \<Rightarrow> int list list \<Rightarrow> pyerror + tensor3" where
  "InputEmbedding_forward m x =
     andthen (sequence (map (\<lambda>sentence. sequence (map (embedding_lookup m) sentence)) x))
       (\<lambda>e. Inr (map (map (map (\<lambda>v. v * sqrt (real_of_int (ie_d_model m))))) e))"

section \<open>PositionalEncoding\<close>

record PositionalEncoding =
  pe_d_model :: int
  pe_seq_len :: int
  pe_dropout :: Dropout
  pe_pe :: tensor3

text \<open>
  \<^verbatim>\<open>pe[:, start::2] = src\<close> for a table \<open>pe\<close> of \<open>width\<close> columns and a source of \<open>src_cols\<close>
  columns with as many rows as \<open>pe\<close>. The slice has \<open>k\<close> columns; the source is expanded to
  the shape of the slice, which the library allows when the sizes agree or the source has
  one column (then that column is repeated \<open>k\<close> times, also for \<open>k = 0\<close>), and refuses
  with a RuntimeError otherwise.
\<close>

definition put_cols :: "nat \<Rightarrow> vec \<Rightarrow> vec \<Rightarrow> vec" where
  "put_cols start row vals =
     map (\<lambda>i. if start \<le> i \<and> (i - start) mod 2 = 0 then vals ! ((i - start) div 2) else row ! i)
       [0..<length row]"

definition setitem_cols :: "nat \<Rightarrow> nat \<Rightarrow> nat \<Rightarrow> mat \<Rightarrow> mat \<Rightarrow> pyerror + mat" where
  "setitem_cols start width src_cols pe src =
     (let k = (width + 1 - start) div 2 in
      if src_cols = k then Inr (map2 (put_cols start) pe src)
      else if src_cols = 1
        then Inr (map2 (\<lambda>row s. put_cols start row (replicate k (s ! 0))) pe src)
      else Inl RuntimeError)"

definition PositionalEncoding_init :: "int \<Rightarrow> int \<Rightarrow> real \<Rightarrow> pyerror + PositionalEncoding" where
  "PositionalEncoding_init d_model seq_len dropout =
     andthen (Dropout_init dropout) (\<lambda>drop.
       if seq_len < 0 \<or> d_model < 0 then Inl RuntimeError
       else if d_model = 0 then Inl ZeroDivisionError
       else
         (let pe = replicate (nat seq_len) (replicate (nat d_model) 0);
              position = map real [0..<nat seq_len];
              vector = map (\<lambda>j. real (2 * j)) [0..<(nat d_model + 1) div 2];
              denominator_harvard =
                map (\<lambda>v. exp (v * (- ln 10000 / real_of_int d_model))) vector
          in andthen (setitem_cols 0 (nat d_model) (length denominator_harvard) pe
                        (map (\<lambda>pos. map (\<lambda>d. sin (pos * d)) denominator_harvard) position))
               (\<lambda>pe. andthen (setitem_cols 1 (nat d_model) (length denominator_harvard) pe
                        (map (\<lambda>pos. map (\<lambda>d. cos (pos * d)) denominator_harvard) position))
               (\<lambda>pe. Inr \<lparr>pe_d_model = d_model, pe_seq_len = seq_len,
                            pe_dropout = drop, pe_pe = [pe]\<rparr>))))"

definition size1 :: "tensor3 \<Rightarrow> nat" where
  "size1 x = (case x of [] \<Rightarrow> 0 | m # _ \<Rightarrow> length m)"

definition PositionalEncoding_forward ::
  "PositionalEncoding \<Rightarrow> noise \<Rightarrow> tensor3 \<Rightarrow> pyerror + tensor3" where
  "PositionalEncoding_forward m keep x =
     andthen (tensor_add x (map (take (size1 x)) (pe_pe m)))
       (\<lambda>y. Inr (Dropout_forward (pe_dropout m) keep y))"

section \<open>LayerNormalization\<close>

record LayerNormalization =
  ln_eps :: real
  ln_alpha :: real
  ln_bias :: real

definition LayerNormalization_init :: "real \<Rightarrow> LayerNormalization" where
  "LayerNormalization_init e = \<lparr>ln_eps = e, ln_alpha = 1, ln_bias = 0\<rparr>"

definition mean :: "vec \<Rightarrow> real" where
  "mean xs = sum_list xs / real (length xs)"

text \<open>\<^verbatim>\<open>Tensor.std\<close> is the sample standard deviation: the squares are divided by \<open>n - 1\<close>.\<close>

definition std :: "vec \<Rightarrow> real" where
  "std xs = sqrt (sum_list (map (\<lambda>x. (x - mean xs)\<^sup>2) xs) / (real (length xs) - 1))"

definition norm_row :: "LayerNormalization \<Rightarrow> vec \<Rightarrow> vec" where
  "norm_row layer row =
     (let m = mean row; s = std row
      in map (\<lambda>x. ln_alpha layer * ((x - m) / (s\<^sup>2 + ln_eps layer)) + ln_bias layer) row)"

definition LayerNormalization_forward :: "LayerNormalization \<Rightarrow> tensor3 \<Rightarrow> tensor3" where
  "LayerNormalization_forward layer x = map (map (norm_row layer)) x"

section \<open>PositionWiseFeedForward\<close>

record PositionWiseFeedForward =
  ff_d_model :: int
  ff_d_ff :: int
  ff_w1 :: mat
  ff_b1 :: vec
  ff_w2 :: mat
  ff_b2 :: vec
  ff_dropout :: Dropout

definition PositionWiseFeedForward_init ::
  "int \<Rightarrow> int \<Rightarrow> real \<Rightarrow> mat \<Rightarrow> vec \<Rightarrow> mat \<Rightarrow> vec \<Rightarrow> pyerror + PositionWiseFeedForward" where
  "PositionWiseFeedForward_init d_model d_ff dropout w1 b1 w2 b2 =
     (if d_model < 0 \<or> d_ff < 0 then Inl RuntimeError
      else andthen (Dropout_init dropout) (\<lambda>drop.
        Inr \<lparr>ff_d_model = d_model, ff_d_ff = d_ff, ff_w1 = w1, ff_b1 = b1,
             ff_w2 = w2, ff_b2 = b2, ff_dropout = drop\<rparr>))"

definition relu :: "tensor3 \<Rightarrow> tensor3" where
  "relu x = map (map (map (max 0))) x"

definition PositionWiseFeedForward_forward ::
  "PositionWiseFeedForward \<Rightarrow> noise \<Rightarrow> tensor3 \<Rightarrow> pyerror + tensor3" where
  "PositionWiseFeedForward_forward m keep x =
     andthen (linear (nat (ff_d_model m)) (ff_w1 m) (Some (ff_b1 m)) x) (\<lambda>y.
       linear (nat (ff_d_ff m)) (ff_w2 m) (Some (ff_b2 m))
         (Dropout_forward (ff_dropout m) keep (relu y)))"

section \<open>MultiHeadAttentionBlock\<close>

record MultiHeadAttentionBlock =
  mha_d_model :: int
  mha_h :: int
  mha_d_k :: int
  mha_wq :: mat
  mha_wk :: mat
  mha_wv :: mat
  mha_wo :: mat
  mha_dropout :: Dropout

text \<open>
  The constructor evaluates \<^verbatim>\<open>d_model % h\<close> inside the assertion (Python's \<^verbatim>\<open>%\<close> and \<^verbatim>\<open>//\<close> on
  integers are \<open>mod\<close> and \<open>div\<close> on \<^typ>\<open>int\<close>; a zero divisor raises), then creates the four
  bias-free linear layers, which needs a non-negative size, then the dropout layer.
\<close>

definition MultiHeadAttentionBlock_init ::
  "int \<Rightarrow> int \<Rightarrow> real \<Rightarrow> mat \<Rightarrow> mat \<Rightarrow> mat \<Rightarrow> mat \<Rightarrow> pyerror + MultiHeadAttentionBlock" where
  "MultiHeadAttentionBlock_init d_model h dropout wq wk wv wo =
     (if h = 0 then Inl ZeroDivisionError
      else if d_model mod h \<noteq> 0 then Inl AssertionError
      else if d_model < 0 then Inl RuntimeError
      else andthen (Dropout_init dropout) (\<lambda>drop.
        Inr \<lparr>mha_d_model = d_model, mha_h = h, mha_d_k = d_model div h,
             mha_wq = wq, mha_wk = wk, mha_wv = wv, mha_wo = wo, mha_dropout = drop\<rparr>))"

text \<open>
  What a Python caller can put in the \<^verbatim>\<open>mask\<close> position of a call: \<^verbatim>\<open>None\<close>, a tensor
  (here of rank 4, broadcast against the scores), or some other object, of which the
  program only ever passes a dropout module.
\<close>

datatype pyobj = PyNone | PyTensor tensor4 | PyModule Dropout

text \<open>
  The value of \<^verbatim>\<open>mask == 0\<close>: the elementwise comparison for a tensor; for \<^verbatim>\<open>None\<close> and for a
  module, which define no equality with a number, Python's \<^verbatim>\<open>False\<close>.
\<close>

datatype cond = CondTensor "bool list list list list" | CondBool bool

fun py_eq_zero :: "pyobj \<Rightarrow> cond" where
  "py_eq_zero (PyTensor m) = CondTensor (map (map (map (map (\<lambda>v. v = 0)))) m)"
| "py_eq_zero (PyModule d) = CondBool False"
| "py_eq_zero PyNone = CondBool False"

text \<open>
  \<^verbatim>\<open>Tensor.masked_fill(cond, value)\<close>: the condition must be a tensor, expandable to the
  shape of the scores; a Python \<^verbatim>\<open>bool\<close> in its place is rejected with a TypeError.
\<close>

fun masked_fill :: "tensor4 \<Rightarrow> cond \<Rightarrow> real \<Rightarrow> pyerror + tensor4" where
  "masked_fill scores (CondTensor c) value =
     broadcast_onto (broadcast_onto (broadcast_onto (broadcast_onto
       (\<lambda>s b. Inr (if b then value else s))))) scores c"
| "masked_fill scores (CondBool b) value = Inl TypeError"

definition size_last :: "tensor4 \<Rightarrow> nat" where
  "size_last t = (case concat (concat t) of [] \<Rightarrow> 0 | row # _ \<Rightarrow> length row)"

text \<open>\<^verbatim>\<open>matmul(query, key.transpose(-2, -1))\<close> on one head, and lifted over heads and batch.\<close>

definition qk_scores :: "mat \<Rightarrow> mat \<Rightarrow> pyerror + mat" where
  "qk_scores q k =
     (if list_all (\<lambda>qr. list_all (\<lambda>kr. length qr = length kr) k) q
      then Inr (map (\<lambda>qr. map (dot qr) k) q)
      else Inl RuntimeError)"

definition matmul_qk :: "tensor4 \<Rightarrow> tensor4 \<Rightarrow> pyerror + tensor4" where
  "matmul_qk = broadcast2 (broadcast2 qk_scores)"

text \<open>\<^verbatim>\<open>matmul(attention_scores, value)\<close> on one head, and lifted over heads and batch.\<close>

definition scores_value :: "mat \<Rightarrow> mat \<Rightarrow> pyerror + mat" where
  "scores_value p v =
     (if list_all (\<lambda>pr. length pr = length v) p
      then Inr (map (\<lambda>pr. map (dot pr) (transpose v)) p)
      else Inl RuntimeError)"

definition matmul_pv :: "tensor4 \<Rightarrow> tensor4 \<Rightarrow> pyerror + tensor4" where
  "matmul_pv = broadcast2 (broadcast2 scores_value)"

definition softmax :: "vec \<Rightarrow> vec" where
  "softmax xs = map (\<lambda>x. exp x / sum_list (map exp xs)) xs"

text \<open>
  The static method \<^verbatim>\<open>attention(query, key, value, mask=None, dropout=None)\<close>. The
  \<^verbatim>\<open>dropout\<close> argument, when given, comes with the sample it draws.
\<close>

definition attention ::
  "tensor4 \<Rightarrow> tensor4 \<Rightarrow> tensor4 \<Rightarrow> pyobj \<Rightarrow> (Dropout \<times> noise) option
     \<Rightarrow> pyerror + (tensor4 \<times> tensor4)" where
  "attention query key value msk dropout =
     (let d_k = size_last query in
      andthen (matmul_qk query key) (\<lambda>qk.
      andthen
        (let attention_scores = map (map (map (map (\<lambda>s. s / sqrt (real d_k))))) qk in
         if msk \<noteq> PyNone then masked_fill attention_scores (py_eq_zero msk) (- (10 ^ 9))
         else Inr attention_scores) (\<lambda>attention_scores.
      let attention_scores = map (map (map softmax)) attention_scores;
          attention_scores =
            (case dropout of None \<Rightarrow> attention_scores
             | Some (d, keep) \<Rightarrow> Dropout_forward4 d keep attention_scores)
      in andthen (matmul_pv attention_scores value) (\<lambda>x. Inr (x, attention_scores)))))"

text \<open>
  \<^verbatim>\<open>t.view(t.shape[0], t.shape[1], h, d_k).transpose(1, 2)\<close>: every row of \<open>h * d_k\<close>
  features is cut into \<open>h\<close> pieces of \<open>d_k\<close>, and the head axis is moved before the sequence
  axis. A negative size, or a row that is not \<open>h * d_k\<close> long, raises.
\<close>

definition view_heads :: "int \<Rightarrow> int \<Rightarrow> tensor3 \<Rightarrow> pyerror + tensor4" where
  "view_heads h d_k t =
     (if h < 0 \<or> d_k < 0 then Inl RuntimeError
      else if \<not> list_all (list_all (\<lambda>row. int (length row) = h * d_k)) t then Inl RuntimeError
      else Inr (map (\<lambda>m. map (\<lambda>i. map (\<lambda>row. take (nat d_k) (drop (i * nat d_k) row)) m)
                       [0..<nat h]) t))"

text \<open>
  \<^verbatim>\<open>x.transpose(1, 2).contiguous().view(x.shape[0], -1, h * d_k)\<close>: the heads of each
  position are concatenated again. A negative size raises; the inferred axis is ambiguous,
  and the call raises, when \<open>h * d_k = 0\<close> or the batch is empty.
\<close>

definition merge_heads :: "int \<Rightarrow> int \<Rightarrow> tensor4 \<Rightarrow> pyerror + tensor3" where
  "merge_heads h d_k x =
     (if h * d_k \<le> 0 \<or> x = [] then Inl RuntimeError
      else Inr (map (\<lambda>heads.
             (case heads of [] \<Rightarrow> []
              | h0 # _ \<Rightarrow> map (\<lambda>s. concat (map (\<lambda>hd. hd ! s) heads)) [0..<length h0])) x))"

text \<open>
  \<^verbatim>\<open>forward(q, k, v, mask=None)\<close>. The result is the returned tensor together with the value
  the call stores in \<^verbatim>\<open>self.attention_scores\<close>. The call of \<^verbatim>\<open>attention\<close> is the source's
  \<^verbatim>\<open>MultiHeadAttentionBlock.attention(query, key, value, self.dropout)\<close>: four positional
  arguments, so \<^verbatim>\<open>self.dropout\<close> lands in the parameter \<^verbatim>\<open>mask\<close> and the parameter
  \<^verbatim>\<open>dropout\<close> keeps its default.
\<close>

definition MultiHeadAttentionBlock_forward ::
  "MultiHeadAttentionBlock \<Rightarrow> tensor3 \<Rightarrow> tensor3 \<Rightarrow> tensor3 \<Rightarrow> pyobj
     \<Rightarrow> pyerror + (tensor3 \<times> tensor4)" where
  "MultiHeadAttentionBlock_forward self q k v msk =
     andthen (linear (nat (mha_d_model self)) (mha_wq self) None q) (\<lambda>query.
     andthen (linear (nat (mha_d_model self)) (mha_wk self) None k) (\<lambda>key.
     andthen (linear (nat (mha_d_model self)) (mha_wv self) None v) (\<lambda>value.
     andthen (view_heads (mha_h self) (mha_d_k self) query) (\<lambda>query.
     andthen (view_heads (mha_h self) (mha_d_k self) key) (\<lambda>key.
     andthen (view_heads (mha_h self) (mha_d_k self) value) (\<lambda>value.
     andthen (attention query key value (PyModule (mha_dropout self)) None)
       (\<lambda>(x, attention_scores).
     andthen (merge_heads (mha_h self) (mha_d_k self) x) (\<lambda>x.
     andthen (linear (nat (mha_d_model self)) (mha_wo self) None x) (\<lambda>out.
       Inr (out, attention_scores))))))))))"

section \<open>ResidualConnection\<close>

record ResidualConnection =
  rc_dropout :: Dropout
  rc_norm :: LayerNormalization

text \<open>
  A numeric argument of a Python call. The constructor \<^verbatim>\<open>__init__(self, dropout)\<close> binds
  exactly one positional argument after \<^verbatim>\<open>self\<close>; a call with any other number of
  arguments raises a TypeError before the body runs.
\<close>

datatype pyval = PyInt int | PyFloat real

fun float_of :: "pyval \<Rightarrow> real" where
  "float_of (PyInt i) = real_of_int i"
| "float_of (PyFloat r) = r"

fun ResidualConnection_init :: "pyval list \<Rightarrow> pyerror + ResidualConnection" where
  "ResidualConnection_init [dropout] =
     andthen (Dropout_init (float_of dropout)) (\<lambda>drop.
       Inr \<lparr>rc_dropout = drop, rc_norm = LayerNormalization_init (1 / 1000000)\<rparr>)"
| "ResidualConnection_init args = Inl TypeError"

definition ResidualConnection_forward ::
  "ResidualConnection \<Rightarrow> noise \<Rightarrow> tensor3 \<Rightarrow> (tensor3 \<Rightarrow> pyerror + tensor3)
     \<Rightarrow> pyerror + tensor3" where
  "ResidualConnection_forward self keep x sublayer =
     (let normed = LayerNormalization_forward (rc_norm self) x in
      andthen (sublayer normed) (\<lambda>out.
        tensor_add x (Dropout_forward (rc_dropout self) keep out)))"

section \<open>EncoderBlock and Encoder\<close>

record EncoderBlock =
  eb_selfattn_block :: MultiHeadAttentionBlock
  eb_feedforward_block :: PositionWiseFeedForward
  eb_res_con :: "ResidualConnection list"

definition EncoderBlock_init ::
  "int \<Rightarrow> MultiHeadAttentionBlock \<Rightarrow> PositionWiseFeedForward \<Rightarrow> real
     \<Rightarrow> pyerror + EncoderBlock" where
  "EncoderBlock_init features selfattn_block feedforward_block dropout =
     andthen (sequence (map (\<lambda>_. ResidualConnection_init [PyInt features, PyFloat dropout])
                         [0..<2]))
       (\<lambda>res_con. Inr \<lparr>eb_selfattn_block = selfattn_block,
                        eb_feedforward_block = feedforward_block,
                        eb_res_con = res_con\<rparr>)"

text \<open>The samples drawn in one call of a block: by the two residual dropouts and by the
  dropout inside the feed-forward block.\<close>

record block_noise =
  bn_res0 :: noise
  bn_res1 :: noise
  bn_ff :: noise

definition getitem :: "'a list \<Rightarrow> nat \<Rightarrow> pyerror + 'a" where
  "getitem xs i = (if i < length xs then Inr (xs ! i) else Inl IndexError)"

definition EncoderBlock_forward ::
  "EncoderBlock \<Rightarrow> block_noise \<Rightarrow> tensor3 \<Rightarrow> pyobj \<Rightarrow> pyerror + tensor3" where
  "EncoderBlock_forward self ns x src_mask =
     andthen (getitem (eb_res_con self) 0) (\<lambda>res0.
     andthen (ResidualConnection_forward res0 (bn_res0 ns) x
                (\<lambda>x. andthen (MultiHeadAttentionBlock_forward (eb_selfattn_block self)
                                 x x x src_mask) (\<lambda>(out, scores). Inr out))) (\<lambda>x.
     andthen (getitem (eb_res_con self) 1) (\<lambda>res1.
       ResidualConnection_forward res1 (bn_res1 ns) x
         (PositionWiseFeedForward_forward (eb_feedforward_block self) (bn_ff ns)))))"

record Encoder =
  enc_layers :: "EncoderBlock list"
  enc_norm :: LayerNormalization

definition Encoder_init :: "EncoderBlock list \<Rightarrow> Encoder" where
  "Encoder_init layers = \<lparr>enc_layers = layers, enc_norm = LayerNormalization_init (1 / 1000000)\<rparr>"

text \<open>The loop over the layers; \<open>ns i\<close> holds the samples drawn in the \<open>i\<close>-th layer.\<close>

fun run_layers ::
  "EncoderBlock list \<Rightarrow> nat \<Rightarrow> (nat \<Rightarrow> block_noise) \<Rightarrow> tensor3 \<Rightarrow> pyobj
     \<Rightarrow> pyerror + tensor3" where
  "run_layers [] i ns x msk = Inr x"
| "run_layers (layer # layers) i ns x msk =
     andthen (EncoderBlock_forward layer (ns i) x msk)
       (\<lambda>x. run_layers layers (Suc i) ns x msk)"

definition Encoder_forward ::
  "Encoder \<Rightarrow> (nat \<Rightarrow> block_noise) \<Rightarrow> tensor3 \<Rightarrow> pyobj \<Rightarrow> pyerror + tensor3" where
  "Encoder_forward self ns x msk =
     andthen (run_layers (enc_layers self) 0 ns x msk)
       (\<lambda>x. Inr (LayerNormalization_forward (enc_norm self) x))"

section \<open>Properties\<close>

subsection \<open>Auxiliary facts\<close>

lemma andthen_Inr [simp]: "andthen (Inr v) f = f v"
  by (simp add: andthen_def)

lemma andthen_Inl [simp]: "andthen (Inl e) f = Inl e"
  by (simp add: andthen_def)

lemma sequence_all_Inr:
  "list_all2 (\<lambda>m v. m = Inr v) ms vs \<Longrightarrow> sequence ms = Inr vs"
  by (induction ms vs rule: list_all2_induct) auto

lemma broadcast2_same_shape:
  assumes "list_all2 (\<lambda>a b. f a b = Inr (g a b)) xs ys"
  shows "broadcast2 f xs ys = Inr (map2 g xs ys)"
proof -
  have len: "length xs = length ys"
    using assms by (rule list_all2_lengthD)
  have "list_all2 (\<lambda>m v. m = Inr v) (map2 f xs ys) (map2 g xs ys)"
    using assms by (induction xs ys rule: list_all2_induct) auto
  then show ?thesis
    by (simp add: broadcast2_def len sequence_all_Inr)
qed

lemma vec_add_same_length:
  "length r = length r' \<Longrightarrow> broadcast2 (\<lambda>a b. Inr (a + b)) r r' = Inr (map2 (+) r (r' :: vec))"
  by (rule broadcast2_same_shape) (simp add: list_all2_conv_all_nth)

lemma mat_add_same_shape:
  assumes "list_all2 (\<lambda>r r'. length r = length r') m m'"
  shows "broadcast2 (broadcast2 (\<lambda>a b. Inr (a + b))) m m' = Inr (map2 (map2 (+)) m (m' :: mat))"
  by (rule broadcast2_same_shape)
    (rule list_all2_mono [OF assms], simp add: vec_add_same_length)

lemma tensor_add_same_shape:
  assumes "list_all2 (list_all2 (\<lambda>r r'. length r = length r')) x y"
  shows "tensor_add x y = Inr (map2 (map2 (map2 (+))) x y)"
  unfolding tensor_add_def
  by (rule broadcast2_same_shape)
    (rule list_all2_mono [OF assms], simp add: mat_add_same_shape)

lemma drop3_shape:
  "list_all2 (list_all2 (\<lambda>r r'. length r = length r')) (drop3 p keep pre x) x"
  by (simp add: list_all2_conv_all_nth drop3_def drop2_def drop1_def)

lemma Dropout_forward_shape:
  "list_all2 (list_all2 (\<lambda>r r'. length r = length r')) (Dropout_forward d keep x) x"
proof -
  have "list_all2 (list_all2 (\<lambda>r r'. length r = length r')) x x"
    and "list_all2 (list_all2 (\<lambda>r r'. length r = length r')) (map (map (map (\<lambda>_. 0::real))) x) x"
    by (simp_all add: list_all2_conv_all_nth)
  then show ?thesis
    by (simp add: Dropout_forward_def drop3_shape)
qed

lemma shape_trans:
  assumes "list_all2 (list_all2 (\<lambda>r r'. length r = length r')) x (y :: tensor3)"
    and "list_all2 (list_all2 (\<lambda>r r'. length r = length r')) z (y :: tensor3)"
  shows "list_all2 (list_all2 (\<lambda>r r'. length r = length r')) x z"
  using assms by (simp add: list_all2_conv_all_nth)

lemma upt_0_2: "[0..<2] = [0, 1]"
  by (simp add: upt_conv_Cons)

lemma std_squared:
  "(std xs)\<^sup>2 = sum_list (map (\<lambda>x. (x - mean xs)\<^sup>2) xs) / (real (length xs) - 1)"
proof (cases xs)
  case Nil
  then show ?thesis by (simp add: std_def)
next
  case (Cons a as)
  have "0 \<le> sum_list (map (\<lambda>x. (x - mean xs)\<^sup>2) xs)"
    by (rule sum_list_nonneg) auto
  moreover have "0 \<le> real (length xs) - 1"
    using Cons by simp
  ultimately show ?thesis
    unfolding std_def by (intro real_sqrt_pow2 divide_nonneg_nonneg)
qed

lemma mean_1234: "mean [1, 2, 3, 4] = 5 / 2"
  by (simp add: mean_def)

lemma std_1234: "std [1, 2, 3, 4] = sqrt (5 / 3)"
  by (simp add: std_def mean_1234 power2_eq_square)

lemma norm_row_1234:
  "norm_row (LayerNormalization_init (1 / 1000000)) [1, 2, 3, 4]
     = [- (4500000 / 5000003), - (1500000 / 5000003), 1500000 / 5000003, 4500000 / 5000003]"
proof -
  have sq: "(std [1, 2, 3, 4])\<^sup>2 = 5 / 3"
    by (simp add: std_1234)
  have "norm_row (LayerNormalization_init (1 / 1000000)) [1, 2, 3, 4]
      = map (\<lambda>x. 1 * ((x - 5 / 2) / (5 / 3 + 1 / 1000000)) + 0) [1, 2, 3, 4]"
    unfolding norm_row_def Let_def mean_1234 sq LayerNormalization_init_def by simp
  also have "\<dots> = [- (4500000 / 5000003), - (1500000 / 5000003),
      1500000 / 5000003, 4500000 / 5000003]"
    by simp
  finally show ?thesis .
qed

lemma sqrt_5_3_less: "sqrt (5 / 3) < 13 / 10"
  by (rule real_less_lsqrt) (simp_all add: power2_eq_square)

subsection \<open>LayerNormalization: the divisor is the variance plus eps\<close>

text \<open>
  Claim C5. For every input of shape \<open>(..., d_model)\<close>, \<^verbatim>\<open>LayerNormalization.forward\<close>
  takes the mean and the standard deviation of each row along the last axis and returns
  \<open>alpha * (x - mean) / (std\<^sup>2 + eps) + bias\<close>: the divisor is the square of the
  standard deviation, that is the sample variance, plus \<open>eps\<close>, and not the standard
  deviation plus \<open>eps\<close>. With \<open>alpha = 1\<close>, \<open>bias = 0\<close> and \<open>eps = 10\<^sup>-\<^sup>6\<close> the row
  \<open>[1, 2, 3, 4]\<close> becomes \<open>[-1.5, -0.5, 0.5, 1.5] / (5/3 + eps)\<close>, within \<open>10\<^sup>-\<^sup>6\<close> of
  \<open>[-0.9, -0.3, 0.3, 0.9]\<close>.

  The leading axes are the batch and sequence axes of the pipeline. A row of one element
  is left out: its sample standard deviation is \<open>0 / 0\<close>, a NaN in the library, for which
  the reals have no value.
\<close>

theorem LayerNormalization_forward_variance_denominator:
  "(list_all (list_all (\<lambda>row. length row \<noteq> 1)) x \<longrightarrow>
      LayerNormalization_forward layer x =
        map (map (\<lambda>row. map (\<lambda>v. ln_alpha layer *
              ((v - mean row) /
                 (sum_list (map (\<lambda>u. (u - mean row)\<^sup>2) row) / (real (length row) - 1)
                    + ln_eps layer))
              + ln_bias layer) row)) x)
   \<and> (\<exists>a b c d.
        LayerNormalization_forward (LayerNormalization_init (1 / 1000000)) [[[1, 2, 3, 4]]]
          = [[[a, b, c, d]]]
        \<and> \<bar>a - (- 9 / 10)\<bar> < 1 / 1000000 \<and> \<bar>b - (- 3 / 10)\<bar> < 1 / 1000000
        \<and> \<bar>c - 3 / 10\<bar> < 1 / 1000000 \<and> \<bar>d - 9 / 10\<bar> < 1 / 1000000
        \<and> a = (1 - mean [1, 2, 3, 4]) / ((std [1, 2, 3, 4])\<^sup>2 + 1 / 1000000)
        \<and> a \<noteq> (1 - mean [1, 2, 3, 4]) / (std [1, 2, 3, 4] + 1 / 1000000))"
proof (intro conjI impI)
  show "LayerNormalization_forward layer x =
        map (map (\<lambda>row. map (\<lambda>v. ln_alpha layer *
              ((v - mean row) /
                 (sum_list (map (\<lambda>u. (u - mean row)\<^sup>2) row) / (real (length row) - 1)
                    + ln_eps layer))
              + ln_bias layer) row)) x"
    by (simp add: LayerNormalization_forward_def norm_row_def Let_def std_squared)
next
  have sq: "(std [1, 2, 3, 4])\<^sup>2 = 5 / 3"
    by (simp add: std_1234)
  have pos: "0 < sqrt (5 / 3) + 1 / 1000000"
    by (simp add: add_pos_pos)
  have "(3 / 2) / (sqrt (5 / 3) + 1 / 1000000) > 1"
    using sqrt_5_3_less pos by (simp add: field_simps)
  then have far: "- (4500000 / 5000003) \<noteq> - (3 / 2) / (sqrt (5 / 3) + 1 / 1000000)"
    by linarith
  show "\<exists>a b c d.
        LayerNormalization_forward (LayerNormalization_init (1 / 1000000)) [[[1, 2, 3, 4]]]
          = [[[a, b, c, d]]]
        \<and> \<bar>a - (- 9 / 10)\<bar> < 1 / 1000000 \<and> \<bar>b - (- 3 / 10)\<bar> < 1 / 1000000
        \<and> \<bar>c - 3 / 10\<bar> < 1 / 1000000 \<and> \<bar>d - 9 / 10\<bar> < 1 / 1000000
        \<and> a = (1 - mean [1, 2, 3, 4]) / ((std [1, 2, 3, 4])\<^sup>2 + 1 / 1000000)
        \<and> a \<noteq> (1 - mean [1, 2, 3, 4]) / (std [1, 2, 3, 4] + 1 / 1000000)"
  proof (intro exI conjI)
    show "LayerNormalization_forward (LayerNormalization_init (1 / 1000000)) [[[1, 2, 3, 4]]]
        = [[[- (4500000 / 5000003), - (1500000 / 5000003),
             1500000 / 5000003, 4500000 / 5000003]]]"
      by (simp only: LayerNormalization_forward_def norm_row_1234 list.map)
    show "- (4500000 / 5000003) = (1 - mean [1, 2, 3, 4]) / ((std [1, 2, 3, 4])\<^sup>2 + 1 / 1000000)"
      unfolding sq mean_1234 by simp
    have "(1 - mean [1, 2, 3, 4]) / (std [1, 2, 3, 4] + 1 / 1000000)
        = - (3 / 2) / (sqrt (5 / 3) + 1 / 1000000)"
      unfolding std_1234 mean_1234 by simp
    then show "- (4500000 / 5000003) \<noteq> (1 - mean [1, 2, 3, 4]) / (std [1, 2, 3, 4] + 1 / 1000000)"
      using far by simp
  qed simp_all
qed

text \<open>The general formula at the row \<open>[1, 3]\<close> with \<open>alpha = 3\<close>, \<open>bias = 5\<close>, \<open>eps = 1\<close>:
  mean 2, variance 2, so the row becomes \<open>3 * (\<mp>1 / 3) + 5\<close>.\<close>

theorem LayerNormalization_forward_variance_denominator_witness:
  "list_all (list_all (\<lambda>row. length row \<noteq> 1)) [[[1, 3 :: real]]]
   \<and> LayerNormalization_forward \<lparr>ln_eps = 1, ln_alpha = 3, ln_bias = 5\<rparr> [[[1, 3]]] = [[[4, 6]]]"
  using LayerNormalization_forward_variance_denominator
    [of "[[[1, 3]]]" "\<lparr>ln_eps = 1, ln_alpha = 3, ln_bias = 5\<rparr>"]
  by (simp add: mean_def power2_eq_square)

subsection \<open>ResidualConnection: normalise, sublayer, dropout, add\<close>

text \<open>
  Claim C7. For every input \<open>x\<close> and every sublayer function,
  \<^verbatim>\<open>ResidualConnection.forward\<close> returns \<open>x + dropout(sublayer(norm(x)))\<close>: the layer
  normalisation is applied to \<open>x\<close> before the sublayer sees it (pre-norm), the dropout
  layer is applied to the sublayer's output, and the input is added last. An exception of
  the sublayer propagates. When the sublayer keeps the shape of its input, the sum is the
  elementwise one.
\<close>

theorem ResidualConnection_forward_pre_norm:
  "ResidualConnection_forward self keep x sublayer
     = andthen (sublayer (LayerNormalization_forward (rc_norm self) x))
         (\<lambda>out. tensor_add x (Dropout_forward (rc_dropout self) keep out))
   \<and> (sublayer (LayerNormalization_forward (rc_norm self) x) = Inr out
        \<and> list_all2 (list_all2 (\<lambda>r r'. length r = length r')) x out
      \<longrightarrow> ResidualConnection_forward self keep x sublayer
            = Inr (map2 (map2 (map2 (+))) x (Dropout_forward (rc_dropout self) keep out)))"
proof (intro conjI impI)
  show "ResidualConnection_forward self keep x sublayer
     = andthen (sublayer (LayerNormalization_forward (rc_norm self) x))
         (\<lambda>out. tensor_add x (Dropout_forward (rc_dropout self) keep out))"
    by (simp add: ResidualConnection_forward_def)
next
  assume a: "sublayer (LayerNormalization_forward (rc_norm self) x) = Inr out
    \<and> list_all2 (list_all2 (\<lambda>r r'. length r = length r')) x out"
  then have "list_all2 (list_all2 (\<lambda>r r'. length r = length r')) x
      (Dropout_forward (rc_dropout self) keep out)"
    using shape_trans [OF _ Dropout_forward_shape] by blast
  then show "ResidualConnection_forward self keep x sublayer
      = Inr (map2 (map2 (map2 (+))) x (Dropout_forward (rc_dropout self) keep out))"
    using a by (simp add: ResidualConnection_forward_def tensor_add_same_shape)
qed

text \<open>
  The theorem at the row \<open>[1, 2, 3, 4]\<close>, a sublayer that doubles every element and a
  dropout layer with \<open>p = 0\<close>: the sublayer receives the normalised row, so the result is
  \<open>x + 2 * norm(x)\<close>.
\<close>

theorem ResidualConnection_forward_pre_norm_witness:
  "ResidualConnection_forward
     \<lparr>rc_dropout = \<lparr>dropout_p = 0, dropout_training = True\<rparr>,
      rc_norm = LayerNormalization_init (1 / 1000000)\<rparr>
     (\<lambda>ix. True) [[[1, 2, 3, 4]]] (\<lambda>t. Inr (map (map (map (\<lambda>v. 2 * v))) t))
   = Inr [[[1 - 9000000 / 5000003, 2 - 3000000 / 5000003,
            3 + 3000000 / 5000003, 4 + 9000000 / 5000003]]]"
proof -
  let ?self = "\<lparr>rc_dropout = \<lparr>dropout_p = 0, dropout_training = True\<rparr>,
                rc_norm = LayerNormalization_init (1 / 1000000)\<rparr>"
  let ?out = "[[[- (9000000 / 5000003), - (3000000 / 5000003),
                 3000000 / 5000003, 9000000 / 5000003 :: real]]]"
  have h: "Inr (map (map (map (\<lambda>v. 2 * v)))
               (LayerNormalization_forward (rc_norm ?self) [[[1, 2, 3, 4]]])) = Inr ?out
           \<and> list_all2 (list_all2 (\<lambda>r r'. length r = length r')) [[[1, 2, 3, 4 :: real]]] ?out"
    by (simp add: LayerNormalization_forward_def norm_row_1234)
  have "ResidualConnection_forward ?self (\<lambda>ix. True) [[[1, 2, 3, 4]]]
          (\<lambda>t. Inr (map (map (map (\<lambda>v. 2 * v))) t))
        = Inr (map2 (map2 (map2 (+))) [[[1, 2, 3, 4]]]
                 (Dropout_forward (rc_dropout ?self) (\<lambda>ix. True) ?out))"
    using ResidualConnection_forward_pre_norm
      [of ?self "\<lambda>ix. True" "[[[1, 2, 3, 4]]]" "\<lambda>t. Inr (map (map (map (\<lambda>v. 2 * v))) t)" ?out]
      h by blast
  then show ?thesis
    by (simp add: Dropout_forward_def)
qed

subsection \<open>EncoderBlock: the constructor cannot succeed\<close>

text \<open>
  Claim C9. For every combination of constructor arguments, constructing an
  \<^verbatim>\<open>EncoderBlock\<close> raises: its \<^verbatim>\<open>__init__\<close> calls \<^verbatim>\<open>ResidualConnection(features, dropout)\<close>
  with two arguments, \<^verbatim>\<open>ResidualConnection.__init__\<close> accepts a single one, so the call
  raises a TypeError and no instance is ever created.
\<close>

theorem EncoderBlock_init_always_raises:
  "ResidualConnection_init [PyInt features, PyFloat dropout] = Inl TypeError
   \<and> EncoderBlock_init features selfattn_block feedforward_block dropout = Inl TypeError
   \<and> (ResidualConnection_init args = Inr r \<longrightarrow> length args = 1)"
proof (intro conjI impI)
  show "ResidualConnection_init [PyInt features, PyFloat dropout] = Inl TypeError"
    by simp
  then show "EncoderBlock_init features selfattn_block feedforward_block dropout = Inl TypeError"
    by (simp add: EncoderBlock_init_def upt_0_2)
next
  assume "ResidualConnection_init args = Inr r"
  then show "length args = 1"
    by (cases args rule: ResidualConnection_init.cases) simp_all
qed

text \<open>A call with one argument does construct a \<^verbatim>\<open>ResidualConnection\<close>; the block with
  the same dropout probability is still refused.\<close>

theorem EncoderBlock_init_always_raises_witness:
  "ResidualConnection_init [PyFloat (1 / 10)]
     = Inr \<lparr>rc_dropout = \<lparr>dropout_p = 1 / 10, dropout_training = True\<rparr>,
            rc_norm = LayerNormalization_init (1 / 1000000)\<rparr>
   \<and> length [PyFloat (1 / 10)] = 1
   \<and> EncoderBlock_init 2
        \<lparr>mha_d_model = 2, mha_h = 1, mha_d_k = 2,
         mha_wq = [[1, 0], [0, 1]], mha_wk = [[1, 0], [0, 1]],
         mha_wv = [[1, 0], [0, 1]], mha_wo = [[1, 0], [0, 1]],
         mha_dropout = \<lparr>dropout_p = 1 / 10, dropout_training = True\<rparr>\<rparr>
        \<lparr>ff_d_model = 2, ff_d_ff = 1, ff_w1 = [[1, 1]], ff_b1 = [0],
         ff_w2 = [[1], [1]], ff_b2 = [0, 0],
         ff_dropout = \<lparr>dropout_p = 1 / 10, dropout_training = True\<rparr>\<rparr>
        (1 / 10) = Inl TypeError"
  using EncoderBlock_init_always_raises
    [of 2 "1 / 10"
        "\<lparr>mha_d_model = 2, mha_h = 1, mha_d_k = 2,
          mha_wq = [[1, 0], [0, 1]], mha_wk = [[1, 0], [0, 1]],
          mha_wv = [[1, 0], [0, 1]], mha_wo = [[1, 0], [0, 1]],
          mha_dropout = \<lparr>dropout_p = 1 / 10, dropout_training = True\<rparr>\<rparr>"
        "\<lparr>ff_d_model = 2, ff_d_ff = 1, ff_w1 = [[1, 1]], ff_b1 = [0],
          ff_w2 = [[1], [1]], ff_b2 = [0, 0],
          ff_dropout = \<lparr>dropout_p = 1 / 10, dropout_training = True\<rparr>\<rparr>"
        "[PyFloat (1 / 10)]"]
  by (simp add: Dropout_init_def)

subsection \<open>PositionalEncoding: the sinusoid table\<close>

lemma length_put_cols [simp]: "length (put_cols start row vals) = length row"
  by (simp add: put_cols_def)

lemma nth_put_cols:
  "i < length row \<Longrightarrow>
   put_cols start row vals ! i =
     (if start \<le> i \<and> (i - start) mod 2 = 0 then vals ! ((i - start) div 2) else row ! i)"
  by (simp add: put_cols_def)

lemma setitem_cols_fits:
  "src_cols = (width + 1 - start) div 2 \<Longrightarrow>
   setitem_cols start width src_cols pe src = Inr (map2 (put_cols start) pe src)"
  by (simp add: setitem_cols_def)

lemma setitem_cols_mismatch:
  "src_cols \<noteq> (width + 1 - start) div 2 \<Longrightarrow> src_cols \<noteq> 1 \<Longrightarrow>
   setitem_cols start width src_cols pe src = Inl RuntimeError"
  by (simp add: setitem_cols_def)

text \<open>The two assignments on one row of an even width.\<close>

lemma sin_cos_row:
  assumes "even d"
  shows "put_cols 1
           (put_cols 0 (replicate d 0)
              (map (\<lambda>dn. sin (p * dn)) (map (\<lambda>v. exp (v * c)) (map (\<lambda>j. real (2 * j)) [0..<(d + 1) div 2]))))
           (map (\<lambda>dn. cos (p * dn)) (map (\<lambda>v. exp (v * c)) (map (\<lambda>j. real (2 * j)) [0..<(d + 1) div 2])))
         = map (\<lambda>i. if even i then sin (p * exp (real i * c)) else cos (p * exp (real (i - 1) * c)))
             [0..<d]"
proof (rule nth_equalityI)
  show "length (put_cols 1
           (put_cols 0 (replicate d 0)
              (map (\<lambda>dn. sin (p * dn)) (map (\<lambda>v. exp (v * c)) (map (\<lambda>j. real (2 * j)) [0..<(d + 1) div 2]))))
           (map (\<lambda>dn. cos (p * dn)) (map (\<lambda>v. exp (v * c)) (map (\<lambda>j. real (2 * j)) [0..<(d + 1) div 2]))))
      = length (map (\<lambda>i. if even i then sin (p * exp (real i * c)) else cos (p * exp (real (i - 1) * c)))
             [0..<d])"
    by simp
next
  fix i
  assume "i < length (put_cols 1
           (put_cols 0 (replicate d 0)
              (map (\<lambda>dn. sin (p * dn)) (map (\<lambda>v. exp (v * c)) (map (\<lambda>j. real (2 * j)) [0..<(d + 1) div 2]))))
           (map (\<lambda>dn. cos (p * dn)) (map (\<lambda>v. exp (v * c)) (map (\<lambda>j. real (2 * j)) [0..<(d + 1) div 2]))))"
  then have i: "i < d" by simp
  have half: "(d + 1) div 2 = d div 2"
    using assms by (simp add: )
  show "put_cols 1
           (put_cols 0 (replicate d 0)
              (map (\<lambda>dn. sin (p * dn)) (map (\<lambda>v. exp (v * c)) (map (\<lambda>j. real (2 * j)) [0..<(d + 1) div 2]))))
           (map (\<lambda>dn. cos (p * dn)) (map (\<lambda>v. exp (v * c)) (map (\<lambda>j. real (2 * j)) [0..<(d + 1) div 2]))) ! i
      = map (\<lambda>i. if even i then sin (p * exp (real i * c)) else cos (p * exp (real (i - 1) * c)))
             [0..<d] ! i"
  proof (cases "even i")
    case True
    then have "i div 2 < d div 2"
      using i assms by (auto elim!: evenE)
    moreover have "2 * real (i div 2) = real i"
      using True by (auto elim!: evenE)
    moreover have "\<not> (1 \<le> i \<and> (i - 1) mod 2 = 0)"
      using True by (cases i) (auto simp: mod_2_eq_odd)
    ultimately show ?thesis
      using i True by (simp add: nth_put_cols half mod_2_eq_odd)
  next
    case False
    then have "(i - 1) div 2 < d div 2"
      using i assms by (auto elim!: evenE oddE)
    moreover have "2 * real ((i - 1) div 2) = real (i - 1)"
      using False by (auto elim!: oddE)
    moreover have "1 \<le> i \<and> (i - 1) mod 2 = 0"
      using False by (auto elim!: oddE)
    ultimately show ?thesis
      using i False by (simp add: nth_put_cols half)
  qed
qed


lemma assign_rows:
  "map2 (put_cols 1) (map2 (put_cols 0) (replicate s z) (map f (map real [0..<s])))
     (map g (map real [0..<s]))
   = map (\<lambda>pos. put_cols 1 (put_cols 0 z (f (real pos))) (g (real pos))) [0..<s]"
  by (rule nth_equalityI) simp_all

lemma PositionalEncoding_init_unfold:
  assumes "den = map (\<lambda>v. exp (v * (- ln 10000 / real_of_int d_model)))
             (map (\<lambda>j. real (2 * j)) [0..<(nat d_model + 1) div 2])"
  shows "PositionalEncoding_init d_model seq_len dropout =
     andthen (Dropout_init dropout) (\<lambda>drop.
       if seq_len < 0 \<or> d_model < 0 then Inl RuntimeError
       else if d_model = 0 then Inl ZeroDivisionError
       else andthen (setitem_cols 0 (nat d_model) (length den)
                       (replicate (nat seq_len) (replicate (nat d_model) 0))
                       (map (\<lambda>pos. map (\<lambda>d. sin (pos * d)) den) (map real [0..<nat seq_len])))
              (\<lambda>pe. andthen (setitem_cols 1 (nat d_model) (length den) pe
                       (map (\<lambda>pos. map (\<lambda>d. cos (pos * d)) den) (map real [0..<nat seq_len])))
              (\<lambda>pe. Inr \<lparr>pe_d_model = d_model, pe_seq_len = seq_len,
                           pe_dropout = drop, pe_pe = [pe]\<rparr>)))"
  unfolding PositionalEncoding_init_def Let_def assms ..

lemma PositionalEncoding_init_domain:
  assumes "PositionalEncoding_init d_model seq_len dropout = Inr m"
  shows "0 \<le> dropout \<and> dropout \<le> 1 \<and> 0 \<le> seq_len \<and> 0 < d_model"
proof -
  have "\<not> (dropout < 0 \<or> 1 < dropout)"
    using assms by (auto simp: PositionalEncoding_init_def Dropout_init_def)
  moreover from this have "\<not> (seq_len < 0 \<or> d_model < 0)" and "d_model \<noteq> 0"
    using assms by (auto simp: PositionalEncoding_init_def Dropout_init_def split: if_splits)
  ultimately show ?thesis by auto
qed

lemma PositionalEncoding_init_odd:
  assumes "odd d_model" "3 \<le> d_model" "0 \<le> seq_len" "0 \<le> dropout" "dropout \<le> 1"
  shows "PositionalEncoding_init d_model seq_len dropout = Inl RuntimeError"
proof -
  define den where
    "den = map (\<lambda>v. exp (v * (- ln 10000 / real_of_int d_model)))
             (map (\<lambda>j. real (2 * j)) [0..<(nat d_model + 1) div 2])"
  have od: "odd (nat d_model)" and big: "3 \<le> nat d_model"
    using assms(1,2) by (simp_all add: even_nat_iff)
  have len: "length den = (nat d_model + 1) div 2"
    by (simp add: den_def)
  have drop: "Dropout_init dropout = Inr \<lparr>dropout_p = dropout, dropout_training = True\<rparr>"
    using assms(4,5) by (simp add: Dropout_init_def)
  have guards: "\<not> (seq_len < 0 \<or> d_model < 0)" "d_model \<noteq> 0"
    using assms(2,3) by simp_all
  have fit0: "length den = (nat d_model + 1 - 0) div 2"
    by (simp add: len)
  have "(nat d_model + 1) div 2 = nat d_model div 2 + 1"
    using od by (auto elim!: oddE)
  then have nofit: "length den \<noteq> (nat d_model + 1 - 1) div 2"
    by (simp add: len)
  have "2 \<le> (nat d_model + 1) div 2"
    using big by linarith
  then have notone: "length den \<noteq> 1"
    by (simp add: len)
  show ?thesis
    unfolding PositionalEncoding_init_unfold [OF den_def] drop andthen_Inr
    by (simp only: guards if_False setitem_cols_fits [OF fit0]
        setitem_cols_mismatch [OF nofit notone] andthen_Inr andthen_Inl)
qed

lemma PositionalEncoding_init_even:
  assumes "even d_model" "0 < d_model" "0 \<le> seq_len" "0 \<le> dropout" "dropout \<le> 1"
  shows "PositionalEncoding_init d_model seq_len dropout =
    Inr \<lparr>pe_d_model = d_model, pe_seq_len = seq_len,
         pe_dropout = \<lparr>dropout_p = dropout, dropout_training = True\<rparr>,
         pe_pe = [map (\<lambda>pos. map (\<lambda>i.
                    if even i
                    then sin (real pos * exp (real i * (- ln 10000 / real_of_int d_model)))
                    else cos (real pos * exp (real (i - 1) * (- ln 10000 / real_of_int d_model))))
                  [0..<nat d_model]) [0..<nat seq_len]]\<rparr>"
proof -
  define den where
    "den = map (\<lambda>v. exp (v * (- ln 10000 / real_of_int d_model)))
             (map (\<lambda>j. real (2 * j)) [0..<(nat d_model + 1) div 2])"
  have ev: "even (nat d_model)"
    using assms(1,2) by (simp add: even_nat_iff)
  have len: "length den = (nat d_model + 1) div 2"
    by (simp add: den_def)
  have half: "(nat d_model + 1) div 2 = nat d_model div 2"
    using ev by simp
  have rows: "(\<lambda>pos. put_cols 1
                 (put_cols 0 (replicate (nat d_model) 0) (map (\<lambda>d. sin (real pos * d)) den))
                 (map (\<lambda>d. cos (real pos * d)) den))
      = (\<lambda>pos. map (\<lambda>i.
            if even i
            then sin (real pos * exp (real i * (- ln 10000 / real_of_int d_model)))
            else cos (real pos * exp (real (i - 1) * (- ln 10000 / real_of_int d_model))))
          [0..<nat d_model])"
    unfolding den_def by (rule ext) (rule sin_cos_row [OF ev])
  have drop: "Dropout_init dropout = Inr \<lparr>dropout_p = dropout, dropout_training = True\<rparr>"
    using assms(4,5) by (simp add: Dropout_init_def)
  have guards: "\<not> (seq_len < 0 \<or> d_model < 0)" "d_model \<noteq> 0"
    using assms(2,3) by simp_all
  have fit0: "length den = (nat d_model + 1 - 0) div 2"
    by (simp add: len)
  have fit1: "length den = (nat d_model + 1 - 1) div 2"
    using half by (simp add: len)
  show ?thesis
    unfolding PositionalEncoding_init_unfold [OF den_def] drop andthen_Inr
    by (simp only: guards if_False setitem_cols_fits [OF fit0] setitem_cols_fits [OF fit1]
        andthen_Inr assign_rows rows)
qed


lemma upt_unfolds: "[0..<2] = [0, 1]" "[0..<1] = [0]"
  by (simp_all add: upt_conv_Cons)

lemma replicate_2: "replicate 2 x = [x, x]"
  by (simp add: numeral_2_eq_2)

lemma harvard_divisor:
  "p * exp (x * (- ln 10000 / D)) = p / 10000 powr (x / (D :: real))"
proof -
  have "x * (- ln 10000 / D) = - (x / D * ln 10000)"
    by simp
  then show ?thesis
    by (simp only: powr_def exp_minus divide_inverse) simp
qed

text \<open>
  Claim C6. For every even \<open>d_model\<close> and every \<open>seq_len\<close>, the table that
  \<^verbatim>\<open>PositionalEncoding.__init__\<close> builds satisfies
  \<open>pe[pos, i] = sin(pos / 10000\<^bsup>i / d_model\<^esup>)\<close> for even \<open>i\<close> and
  \<open>pe[pos, i] = cos(pos / 10000\<^bsup>(i - 1) / d_model\<^esup>)\<close> for odd \<open>i\<close>, computed through the
  shared divisor \<open>exp(i * (- ln 10000 / d_model))\<close> (for odd \<open>i\<close> the divisor of column
  \<open>i - 1\<close>); the row of position 0 is \<open>[0, 1, 0, 1, ...]\<close>.

  The first part speaks about every table that is built for an even \<open>d_model\<close>; the second
  part says that one is built whenever \<open>d_model\<close> is even and positive, \<open>seq_len\<close> is not
  negative and the dropout probability is one. (For \<open>d_model = 0\<close> the division by
  \<open>d_model\<close> raises, so no table exists.)
\<close>

theorem PositionalEncoding_table_sinusoid:
  "(even d_model \<and> PositionalEncoding_init d_model seq_len dropout = Inr m \<longrightarrow>
      (\<exists>table. pe_pe m = [table] \<and> length table = nat seq_len
         \<and> (\<forall>pos < nat seq_len. length (table ! pos) = nat d_model
              \<and> (\<forall>i < nat d_model.
                   table ! pos ! i =
                     (if even i
                      then sin (real pos / 10000 powr (real i / real_of_int d_model))
                      else cos (real pos / 10000 powr (real (i - 1) / real_of_int d_model)))
                 \<and> table ! pos ! i =
                     (if even i
                      then sin (real pos * exp (real i * (- ln 10000 / real_of_int d_model)))
                      else cos (real pos * exp (real (i - 1) * (- ln 10000 / real_of_int d_model))))))
         \<and> (0 < seq_len \<longrightarrow> table ! 0 = map (\<lambda>i. if even i then 0 else 1) [0..<nat d_model])))
   \<and> (even d_model \<and> 0 < d_model \<and> 0 \<le> seq_len \<and> 0 \<le> dropout \<and> dropout \<le> 1 \<longrightarrow>
        (\<exists>built. PositionalEncoding_init d_model seq_len dropout = Inr built))"
proof (intro conjI impI)
  assume a: "even d_model \<and> PositionalEncoding_init d_model seq_len dropout = Inr m"
  let ?entry = "\<lambda>pos i.
     if even i
     then sin (real pos * exp (real i * (- ln 10000 / real_of_int d_model)))
     else cos (real pos * exp (real (i - 1) * (- ln 10000 / real_of_int d_model)))"
  let ?table = "map (\<lambda>pos. map (?entry pos) [0..<nat d_model]) [0..<nat seq_len]"
  have dom: "0 \<le> dropout \<and> dropout \<le> 1 \<and> 0 \<le> seq_len \<and> 0 < d_model"
    using a PositionalEncoding_init_domain by blast
  then have "PositionalEncoding_init d_model seq_len dropout =
    Inr \<lparr>pe_d_model = d_model, pe_seq_len = seq_len,
         pe_dropout = \<lparr>dropout_p = dropout, dropout_training = True\<rparr>,
         pe_pe = [?table]\<rparr>"
    using a PositionalEncoding_init_even by blast
  then have pe: "pe_pe m = [?table]"
    using a by simp
  have len: "length ?table = nat seq_len"
    by simp
  have entries: "\<forall>pos < nat seq_len. length (?table ! pos) = nat d_model
      \<and> (\<forall>i < nat d_model.
            ?table ! pos ! i =
              (if even i
               then sin (real pos / 10000 powr (real i / real_of_int d_model))
               else cos (real pos / 10000 powr (real (i - 1) / real_of_int d_model)))
          \<and> ?table ! pos ! i = ?entry pos i)"
    by (simp only: harvard_divisor) simp
  have row0: "0 < seq_len \<longrightarrow> ?table ! 0 = map (\<lambda>i. if even i then 0 else 1) [0..<nat d_model]"
    by simp
  show "\<exists>table. pe_pe m = [table] \<and> length table = nat seq_len
         \<and> (\<forall>pos < nat seq_len. length (table ! pos) = nat d_model
              \<and> (\<forall>i < nat d_model.
                   table ! pos ! i =
                     (if even i
                      then sin (real pos / 10000 powr (real i / real_of_int d_model))
                      else cos (real pos / 10000 powr (real (i - 1) / real_of_int d_model)))
                 \<and> table ! pos ! i = ?entry pos i))
         \<and> (0 < seq_len \<longrightarrow> table ! 0 = map (\<lambda>i. if even i then 0 else 1) [0..<nat d_model])"
    using pe len entries row0 by blast
next
  assume "even d_model \<and> 0 < d_model \<and> 0 \<le> seq_len \<and> 0 \<le> dropout \<and> dropout \<le> 1"
  then show "\<exists>built. PositionalEncoding_init d_model seq_len dropout = Inr built"
    using PositionalEncoding_init_even by blast
qed

text \<open>The table for \<open>d_model = 2\<close>, \<open>seq_len = 2\<close>: the rows \<open>[0, 1]\<close> and
  \<open>[sin 1, cos 1]\<close>.\<close>

theorem PositionalEncoding_table_sinusoid_witness:
  "even (2 :: int)
   \<and> PositionalEncoding_init 2 2 0 =
       Inr \<lparr>pe_d_model = 2, pe_seq_len = 2,
            pe_dropout = \<lparr>dropout_p = 0, dropout_training = True\<rparr>,
            pe_pe = [[[0, 1], [sin 1, cos 1]]]\<rparr>
   \<and> [[0, 1], [sin 1, cos 1]] ! 0 = map (\<lambda>i. if even i then 0 else 1) [0..<nat 2]
   \<and> [[0, 1], [sin 1, cos 1 :: real]] ! 1 ! 1 = cos (real 1 / 10000 powr (real (1 - 1) / real_of_int 2))"
proof -
  let ?m = "\<lparr>pe_d_model = 2, pe_seq_len = 2,
            pe_dropout = \<lparr>dropout_p = 0, dropout_training = True\<rparr>,
            pe_pe = [[[0, 1], [sin 1, cos 1]]]\<rparr>"
  have built: "PositionalEncoding_init 2 2 0 = Inr ?m"
    by (simp add: PositionalEncoding_init_def Dropout_init_def setitem_cols_def put_cols_def
        Let_def upt_unfolds replicate_2)
  have hyp: "even (2 :: int) \<and> PositionalEncoding_init 2 2 0 = Inr ?m"
    using built by simp
  have "\<exists>table. pe_pe ?m = [table] \<and> length table = nat 2
         \<and> (\<forall>pos < nat 2. length (table ! pos) = nat 2
              \<and> (\<forall>i < nat 2.
                   table ! pos ! i =
                     (if even i
                      then sin (real pos / 10000 powr (real i / real_of_int 2))
                      else cos (real pos / 10000 powr (real (i - 1) / real_of_int 2)))
                 \<and> table ! pos ! i =
                     (if even i
                      then sin (real pos * exp (real i * (- ln 10000 / real_of_int 2)))
                      else cos (real pos * exp (real (i - 1) * (- ln 10000 / real_of_int 2))))))
         \<and> ((0 :: int) < 2 \<longrightarrow> table ! 0 = map (\<lambda>i. if even i then 0 else 1) [0..<nat 2])"
    using PositionalEncoding_table_sinusoid [of 2 2 0 ?m, THEN conjunct1] hyp by (rule mp)
  then obtain table where t: "pe_pe ?m = [table]"
    and entries: "\<forall>pos < nat 2. length (table ! pos) = nat 2
              \<and> (\<forall>i < nat 2.
                   table ! pos ! i =
                     (if even i
                      then sin (real pos / 10000 powr (real i / real_of_int 2))
                      else cos (real pos / 10000 powr (real (i - 1) / real_of_int 2)))
                 \<and> table ! pos ! i =
                     (if even i
                      then sin (real pos * exp (real i * (- ln 10000 / real_of_int 2)))
                      else cos (real pos * exp (real (i - 1) * (- ln 10000 / real_of_int 2)))))"
    and row0: "(0 :: int) < 2 \<longrightarrow> table ! 0 = map (\<lambda>i. if even i then 0 else 1) [0..<nat 2]"
    by blast
  have tab: "table = [[0, 1], [sin 1, cos 1]]"
    using t by simp
  have "1 < nat 2"
    by simp
  then have "table ! 1 ! 1 = cos (real 1 / 10000 powr (real (1 - 1) / real_of_int 2))"
    using entries by fastforce
  moreover have "table ! 0 = map (\<lambda>i. if even i then 0 else 1) [0..<nat 2]"
    using row0 by simp
  ultimately show ?thesis
    using built unfolding tab by (intro conjI) (simp_all add: upt_unfolds)
qed

subsection \<open>PositionalEncoding: odd widths\<close>

text \<open>
  Claim C10 says that for every odd \<open>d_model\<close> and every \<open>seq_len \<ge> 1\<close> the construction
  fails, because the cosine assignment writes \<open>\<lceil>d_model / 2\<rceil>\<close> computed columns into
  \<open>\<lfloor>d_model / 2\<rfloor>\<close> slots. For \<open>d_model = 1\<close> this is not so: the source has one column and
  the slice \<^verbatim>\<open>pe[:, 1::2]\<close> has none, and a source axis of size 1 is expanded to any
  size, also to 0. The construction succeeds, and the table is the sine column alone.
\<close>

theorem PositionalEncoding_init_odd_width_counterexample:
  "odd (1 :: int) \<and> (1 :: int) \<le> 2
   \<and> PositionalEncoding_init 1 2 0 =
       Inr \<lparr>pe_d_model = 1, pe_seq_len = 2,
            pe_dropout = \<lparr>dropout_p = 0, dropout_training = True\<rparr>,
            pe_pe = [[[0], [sin 1]]]\<rparr>"
  by (simp add: PositionalEncoding_init_def Dropout_init_def setitem_cols_def put_cols_def
      Let_def upt_unfolds replicate_2)

text \<open>
  Claim C10, amended. For every odd \<open>d_model \<ge> 3\<close> and every \<open>seq_len \<ge> 1\<close> the
  construction fails: with a dropout probability in \<open>[0, 1]\<close> by the RuntimeError of the
  cosine assignment, whose \<open>\<lceil>d_model / 2\<rceil>\<close> columns neither fit the \<open>\<lfloor>d_model / 2\<rfloor>\<close> slots
  nor are a single column; otherwise already by the ValueError of the dropout layer. The
  construction succeeds only when \<open>d_model\<close> is even or \<open>d_model = 1\<close>.
\<close>

theorem PositionalEncoding_init_odd_width:
  "(odd d_model \<and> 3 \<le> d_model \<and> 1 \<le> seq_len \<longrightarrow>
      PositionalEncoding_init d_model seq_len dropout =
        Inl (if dropout < 0 \<or> 1 < dropout then ValueError else RuntimeError))
   \<and> (PositionalEncoding_init d_model seq_len dropout = Inr m \<longrightarrow> even d_model \<or> d_model = 1)"
proof (intro conjI impI)
  assume a: "odd d_model \<and> 3 \<le> d_model \<and> 1 \<le> seq_len"
  show "PositionalEncoding_init d_model seq_len dropout =
        Inl (if dropout < 0 \<or> 1 < dropout then ValueError else RuntimeError)"
  proof (cases "dropout < 0 \<or> 1 < dropout")
    case True
    then show ?thesis
      by (simp add: PositionalEncoding_init_def Dropout_init_def)
  next
    case False
    then show ?thesis
      using a PositionalEncoding_init_odd [of d_model seq_len dropout] by simp
  qed
next
  assume b: "PositionalEncoding_init d_model seq_len dropout = Inr m"
  then have dom: "0 \<le> dropout \<and> dropout \<le> 1 \<and> 0 \<le> seq_len \<and> 0 < d_model"
    by (rule PositionalEncoding_init_domain)
  show "even d_model \<or> d_model = 1"
  proof (rule ccontr)
    assume "\<not> (even d_model \<or> d_model = 1)"
    moreover have "0 < d_model"
      using dom by simp
    ultimately have "odd d_model" and "3 \<le> d_model"
      by presburger+
    then have "PositionalEncoding_init d_model seq_len dropout = Inl RuntimeError"
      using dom PositionalEncoding_init_odd by blast
    then show False
      using b by simp
  qed
qed


text \<open>Width 3 is refused; width 2 is built, and is even.\<close>

theorem PositionalEncoding_init_odd_width_witness:
  "odd (3 :: int) \<and> (3 :: int) \<le> 3 \<and> (1 :: int) \<le> 1
   \<and> PositionalEncoding_init 3 1 0 = Inl RuntimeError
   \<and> PositionalEncoding_init 2 1 0 =
       Inr \<lparr>pe_d_model = 2, pe_seq_len = 1,
            pe_dropout = \<lparr>dropout_p = 0, dropout_training = True\<rparr>,
            pe_pe = [[[0, 1]]]\<rparr>
   \<and> (even (2 :: int) \<or> (2 :: int) = 1)"
proof -
  have "PositionalEncoding_init 3 1 0 = Inl RuntimeError"
    using PositionalEncoding_init_odd_width [of 3 1 0] by simp
  moreover have built: "PositionalEncoding_init 2 1 0 =
       Inr \<lparr>pe_d_model = 2, pe_seq_len = 1,
            pe_dropout = \<lparr>dropout_p = 0, dropout_training = True\<rparr>,
            pe_pe = [[[0, 1]]]\<rparr>"
    by (simp add: PositionalEncoding_init_def Dropout_init_def setitem_cols_def put_cols_def
        Let_def upt_unfolds)
  moreover have "even (2 :: int) \<or> (2 :: int) = 1"
    using PositionalEncoding_init_odd_width [of 2 1 0] built by blast
  ultimately show ?thesis
    by simp
qed

subsection \<open>MultiHeadAttentionBlock: the call of the static attention method\<close>

lemma andthen_Inr_iff: "andthen m f = Inr r \<longleftrightarrow> (\<exists>v. m = Inr v \<and> f v = Inr r)"
  by (cases m) simp_all

lemma attention_module_mask:
  "attention query key value (PyModule d) dropout =
     andthen (matmul_qk query key) (\<lambda>qk. Inl TypeError)"
  by (simp add: attention_def Let_def)

lemma MultiHeadAttentionBlock_forward_never_returns:
  "MultiHeadAttentionBlock_forward self q k v msk \<noteq> Inr r"
  by (simp add: MultiHeadAttentionBlock_forward_def attention_module_mask andthen_Inr_iff)

lemma upt_0_1: "[0..<1] = [0]"
  by (simp add: upt_conv_Cons)

lemma upt_0_4: "[0..<4] = [0, 1, 2, 3]"
  by (simp add: upt_conv_Cons)


lemma sequence_map_Inr: "sequence (map Inr xs) = Inr xs"
  by (induction xs) simp_all

lemma broadcast_onto_single:
  assumes "\<And>x. x \<in> set xs \<Longrightarrow> f x y = Inr x"
  shows "broadcast_onto f xs [y] = Inr xs"
proof -
  have m: "map (\<lambda>x. f x y) xs = map Inr xs"
    by (rule map_cong) (simp_all add: assms)
  have all: "sequence (map (\<lambda>x. f x y) xs) = Inr xs"
    unfolding m by (rule sequence_map_Inr)
  show ?thesis
  proof (cases "length xs = 1")
    case True
    then obtain x where "xs = [x]"
      by (cases xs) auto
    then show ?thesis
      using all by (simp add: broadcast_onto_def)
  next
    case False
    then have "length [y] \<noteq> length xs"
      by simp
    then show ?thesis
      using all by (simp add: broadcast_onto_def)
  qed
qed

lemma masked_fill_nothing_masked:
  "masked_fill scores (CondTensor [[[[False]]]]) value = Inr scores"
  by (simp add: broadcast_onto_single)

text \<open>
  The static method itself treats an all-ones mask as no mask: a mask of shape
  \<open>(1, 1, 1, 1)\<close> holding a one, which expands to every shape of scores.
\<close>

lemma attention_all_ones_mask:
  "attention query key value (PyTensor [[[[1]]]]) dropout = attention query key value PyNone dropout"
proof -
  have "py_eq_zero (PyTensor [[[[1]]]]) = CondTensor [[[[False]]]]"
    by simp
  then show ?thesis
    unfolding attention_def Let_def
    by (simp add: masked_fill_nothing_masked del: masked_fill.simps py_eq_zero.simps)
qed

lemma exp_minus_less_inverse:
  assumes "0 < (x :: real)"
  shows "exp (- x) < 1 / x"
proof -
  have "x < exp x"
    using exp_ge_add_one_self [of x] by linarith
  then have "1 / exp x < 1 / x"
    using assms by (intro divide_strict_left_mono) simp_all
  then show ?thesis
    by (simp only: exp_minus inverse_eq_divide)
qed

lemma masked_probability_small:
  assumes "0 \<le> a" and "0 < (x :: real)"
  shows "exp (- x) / (exp a + exp (- x)) < 1 / x"
proof -
  have "1 \<le> exp a"
    using assms(1) by simp
  moreover have pos: "0 < exp (- x)"
    by simp
  ultimately have "1 \<le> exp a + exp (- x)"
    by linarith
  then have "exp (- x) / (exp a + exp (- x)) \<le> exp (- x) / 1"
    using pos by (intro divide_left_mono) simp_all
  then show ?thesis
    using exp_minus_less_inverse [OF assms(2)] by simp
qed

text \<open>
  The static method, called with the mask in the mask position, does what the comment in
  its body says: with the second key position masked, the second column of the returned
  probabilities is below \<open>10\<^sup>-\<^sup>9\<close> for both queries.
\<close>

lemma attention_masks_when_given_the_mask:
  "\<exists>x p00 p01 p10 p11.
     attention [[[[1, 2], [3, 4]]]] [[[[1, 2], [3, 4]]]] [[[[1, 2], [7, 9]]]]
       (PyTensor [[[[1, 0]]]]) None = Inr (x, [[[[p00, p01], [p10, p11]]]])
     \<and> p01 < 1 / 10 ^ 9 \<and> p11 < 1 / 10 ^ 9"
proof -
  let ?q = "[[[[1, 2], [3, 4 :: real]]]]"
  let ?v = "[[[[1, 2], [7, 9 :: real]]]]"
  let ?p = "[[[[exp (5 / sqrt 2) / (exp (5 / sqrt 2) + exp (- (10 ^ 9))),
                exp (- (10 ^ 9)) / (exp (5 / sqrt 2) + exp (- (10 ^ 9)))],
               [exp (11 / sqrt 2) / (exp (11 / sqrt 2) + exp (- (10 ^ 9))),
                exp (- (10 ^ 9)) / (exp (11 / sqrt 2) + exp (- (10 ^ 9))) :: real]]]]"
  have qk: "matmul_qk ?q ?q = Inr [[[[5, 11], [11, 25]]]]"
    by (simp add: matmul_qk_def broadcast2_def qk_scores_def dot_def)
  have d_k: "size_last ?q = 2"
    by (simp add: size_last_def)
  have scaled: "map (map (map (map (\<lambda>s. s / sqrt (real 2))))) [[[[5, 11], [11, 25]]]]
      = [[[[5 / sqrt 2, 11 / sqrt 2], [11 / sqrt 2, 25 / sqrt 2]]]]"
    by simp
  have fill: "masked_fill [[[[5 / sqrt 2, 11 / sqrt 2], [11 / sqrt 2, 25 / sqrt 2]]]]
      (py_eq_zero (PyTensor [[[[1, 0]]]])) (- (10 ^ 9))
    = Inr [[[[5 / sqrt 2, - (10 ^ 9)], [11 / sqrt 2, - (10 ^ 9)]]]]"
    by (simp add: broadcast_onto_def)
  have soft: "map (map (map softmax)) [[[[5 / sqrt 2, - (10 ^ 9)], [11 / sqrt 2, - (10 ^ 9)]]]]
      = ?p"
    by (simp add: softmax_def)
  obtain x where pv: "matmul_pv ?p ?v = Inr x"
    by (simp add: matmul_pv_def broadcast2_def scores_value_def)
  have "attention ?q ?q ?v (PyTensor [[[[1, 0]]]]) None = Inr (x, ?p)"
    unfolding attention_def Let_def qk d_k andthen_Inr scaled
    by (simp only: pyobj.distinct not_False_eq_True if_True fill andthen_Inr soft
        option.case pv)
  moreover have "exp (- (10 ^ 9)) / (exp (5 / sqrt 2) + exp (- (10 ^ 9))) < (1 / 10 ^ 9 :: real)"
    by (rule masked_probability_small) simp_all
  moreover have "exp (- (10 ^ 9)) / (exp (11 / sqrt 2) + exp (- (10 ^ 9))) < (1 / 10 ^ 9 :: real)"
    by (rule masked_probability_small) simp_all
  ultimately show ?thesis
    by blast
qed

text \<open>
  Claim C8. For every query, key and value input and every mask argument,
  \<^verbatim>\<open>MultiHeadAttentionBlock.forward\<close> passes the module's dropout layer, not the mask, as
  the fourth positional argument of the static method \<^verbatim>\<open>attention\<close>, and leaves that
  method's \<^verbatim>\<open>dropout\<close> parameter at \<^verbatim>\<open>None\<close>. So the mask given by the caller never
  influences the computation (first part), no dropout layer is applied to the attention
  probabilities, whatever layer the block holds (second part), and the branch with
  \<^verbatim>\<open>masked_fill\<close> runs on every call with a condition that is not a tensor (third part,
  and, once the projections and the head views have succeeded, the fourth: the call that
  is made, and the TypeError with which \<^verbatim>\<open>masked_fill\<close> answers as soon as the scores
  exist).
\<close>

theorem MultiHeadAttentionBlock_forward_ignores_mask:
  "MultiHeadAttentionBlock_forward self q k v msk = MultiHeadAttentionBlock_forward self q k v msk'
   \<and> MultiHeadAttentionBlock_forward (self\<lparr>mha_dropout := d\<rparr>) q k v msk
       = MultiHeadAttentionBlock_forward self q k v msk
   \<and> masked_fill scores (py_eq_zero (PyModule (mha_dropout self))) value = Inl TypeError
   \<and> (linear (nat (mha_d_model self)) (mha_wq self) None q = Inr q1
        \<and> linear (nat (mha_d_model self)) (mha_wk self) None k = Inr k1
        \<and> linear (nat (mha_d_model self)) (mha_wv self) None v = Inr v1
        \<and> view_heads (mha_h self) (mha_d_k self) q1 = Inr query
        \<and> view_heads (mha_h self) (mha_d_k self) k1 = Inr key
        \<and> view_heads (mha_h self) (mha_d_k self) v1 = Inr val
      \<longrightarrow> MultiHeadAttentionBlock_forward self q k v msk
            = andthen (attention query key val (PyModule (mha_dropout self)) None)
                (\<lambda>(x, attention_scores).
                   andthen (merge_heads (mha_h self) (mha_d_k self) x) (\<lambda>x.
                   andthen (linear (nat (mha_d_model self)) (mha_wo self) None x) (\<lambda>out.
                     Inr (out, attention_scores))))
          \<and> (matmul_qk query key = Inr qk
               \<longrightarrow> MultiHeadAttentionBlock_forward self q k v msk = Inl TypeError))"
proof (intro conjI impI)
  show "MultiHeadAttentionBlock_forward self q k v msk
      = MultiHeadAttentionBlock_forward self q k v msk'"
    by (simp add: MultiHeadAttentionBlock_forward_def)
  show "MultiHeadAttentionBlock_forward (self\<lparr>mha_dropout := d\<rparr>) q k v msk
       = MultiHeadAttentionBlock_forward self q k v msk"
    by (simp add: MultiHeadAttentionBlock_forward_def attention_module_mask)
  show "masked_fill scores (py_eq_zero (PyModule (mha_dropout self))) value = Inl TypeError"
    by simp
next
  assume h: "linear (nat (mha_d_model self)) (mha_wq self) None q = Inr q1
        \<and> linear (nat (mha_d_model self)) (mha_wk self) None k = Inr k1
        \<and> linear (nat (mha_d_model self)) (mha_wv self) None v = Inr v1
        \<and> view_heads (mha_h self) (mha_d_k self) q1 = Inr query
        \<and> view_heads (mha_h self) (mha_d_k self) k1 = Inr key
        \<and> view_heads (mha_h self) (mha_d_k self) v1 = Inr val"
  then show call: "MultiHeadAttentionBlock_forward self q k v msk
            = andthen (attention query key val (PyModule (mha_dropout self)) None)
                (\<lambda>(x, attention_scores).
                   andthen (merge_heads (mha_h self) (mha_d_k self) x) (\<lambda>x.
                   andthen (linear (nat (mha_d_model self)) (mha_wo self) None x) (\<lambda>out.
                     Inr (out, attention_scores))))"
    by (simp add: MultiHeadAttentionBlock_forward_def)
  assume "matmul_qk query key = Inr qk"
  then show "MultiHeadAttentionBlock_forward self q k v msk = Inl TypeError"
    unfolding call by (simp add: attention_module_mask)
qed


text \<open>
  The theorem for a block of width 2 with one head and identity weights, on an input of
  two positions, with a mask that hides the second position.
\<close>

theorem MultiHeadAttentionBlock_forward_ignores_mask_witness:
  "linear (nat 2) [[1, 0], [0, 1]] None [[[1, 2], [3, 4]]] = Inr [[[1, 2], [3, 4]]]
   \<and> view_heads 1 2 [[[1, 2], [3, 4]]] = Inr [[[[1, 2], [3, 4]]]]
   \<and> matmul_qk [[[[1, 2], [3, 4]]]] [[[[1, 2], [3, 4]]]] = Inr [[[[5, 11], [11, 25]]]]
   \<and> MultiHeadAttentionBlock_forward
        \<lparr>mha_d_model = 2, mha_h = 1, mha_d_k = 2,
         mha_wq = [[1, 0], [0, 1]], mha_wk = [[1, 0], [0, 1]],
         mha_wv = [[1, 0], [0, 1]], mha_wo = [[1, 0], [0, 1]],
         mha_dropout = \<lparr>dropout_p = 1 / 10, dropout_training = True\<rparr>\<rparr>
        [[[1, 2], [3, 4]]] [[[1, 2], [3, 4]]] [[[1, 2], [3, 4]]] (PyTensor [[[[1, 0]]]])
      = Inl TypeError"
proof -
  let ?self = "\<lparr>mha_d_model = 2, mha_h = 1, mha_d_k = 2,
         mha_wq = [[1, 0], [0, 1]], mha_wk = [[1, 0], [0, 1]],
         mha_wv = [[1, 0], [0, 1]], mha_wo = [[1, 0], [0, 1]],
         mha_dropout = \<lparr>dropout_p = 1 / 10, dropout_training = True\<rparr>\<rparr>"
  let ?x = "[[[1, 2], [3, 4 :: real]]]"
  have lin: "linear (nat 2) [[1, 0], [0, 1]] None ?x = Inr ?x"
    by (simp add: linear_def dot_def)
  have view: "view_heads 1 2 ?x = Inr [[[[1, 2], [3, 4]]]]"
    by (simp add: view_heads_def upt_0_1)
  have qk: "matmul_qk [[[[1, 2], [3, 4]]]] [[[[1, 2], [3, 4]]]] = Inr [[[[5, 11], [11, 25]]]]"
    by (simp add: matmul_qk_def broadcast2_def qk_scores_def dot_def)
  have hyps: "linear (nat (mha_d_model ?self)) (mha_wq ?self) None ?x = Inr ?x
        \<and> linear (nat (mha_d_model ?self)) (mha_wk ?self) None ?x = Inr ?x
        \<and> linear (nat (mha_d_model ?self)) (mha_wv ?self) None ?x = Inr ?x
        \<and> view_heads (mha_h ?self) (mha_d_k ?self) ?x = Inr [[[[1, 2], [3, 4]]]]
        \<and> view_heads (mha_h ?self) (mha_d_k ?self) ?x = Inr [[[[1, 2], [3, 4]]]]
        \<and> view_heads (mha_h ?self) (mha_d_k ?self) ?x = Inr [[[[1, 2], [3, 4]]]]"
    using lin view by simp
  have "MultiHeadAttentionBlock_forward ?self ?x ?x ?x (PyTensor [[[[1, 0]]]]) = Inl TypeError"
    using MultiHeadAttentionBlock_forward_ignores_mask
      [of ?self ?x ?x ?x "PyTensor [[[[1, 0]]]]" PyNone _ _ _ ?x ?x ?x
          "[[[[1, 2], [3, 4]]]]" "[[[[1, 2], [3, 4]]]]" "[[[[1, 2], [3, 4]]]]"
          "[[[[5, 11], [11, 25]]]]",
        THEN conjunct2, THEN conjunct2, THEN conjunct2]
      hyps qk by blast
  then show ?thesis
    using lin view qk by blast
qed

subsection \<open>MultiHeadAttentionBlock: what the call costs\<close>

text \<open>
  Claim C1 says that the scores at positions where the mask is 0 are overwritten with a
  large negative number before the softmax, so that these positions get a probability of
  about zero for every query and the output of the block does not depend on the value row
  at a fully masked position. The static method does this when it is given the mask
  (lemma \<open>attention_masks_when_given_the_mask\<close>), but \<^verbatim>\<open>forward\<close> never gives it the mask:
  for a block of width 2 with one head, two positions and a mask that hides the second
  one, the call raises the TypeError of \<^verbatim>\<open>masked_fill\<close>, with a zero value row at the masked
  position as well as with another one. No score is overwritten and no output is produced.
\<close>

theorem MultiHeadAttentionBlock_forward_masked_position_raises:
  "MultiHeadAttentionBlock_init 2 1 0 [[1, 0], [0, 1]] [[1, 0], [0, 1]] [[1, 0], [0, 1]] [[1, 0], [0, 1]]
     = Inr \<lparr>mha_d_model = 2, mha_h = 1, mha_d_k = 2,
            mha_wq = [[1, 0], [0, 1]], mha_wk = [[1, 0], [0, 1]],
            mha_wv = [[1, 0], [0, 1]], mha_wo = [[1, 0], [0, 1]],
            mha_dropout = \<lparr>dropout_p = 0, dropout_training = True\<rparr>\<rparr>
   \<and> MultiHeadAttentionBlock_forward
        \<lparr>mha_d_model = 2, mha_h = 1, mha_d_k = 2,
         mha_wq = [[1, 0], [0, 1]], mha_wk = [[1, 0], [0, 1]],
         mha_wv = [[1, 0], [0, 1]], mha_wo = [[1, 0], [0, 1]],
         mha_dropout = \<lparr>dropout_p = 0, dropout_training = True\<rparr>\<rparr>
        [[[1, 2], [3, 4]]] [[[1, 2], [3, 4]]] [[[1, 2], [0, 0]]] (PyTensor [[[[1, 0]]]])
      = Inl TypeError
   \<and> MultiHeadAttentionBlock_forward
        \<lparr>mha_d_model = 2, mha_h = 1, mha_d_k = 2,
         mha_wq = [[1, 0], [0, 1]], mha_wk = [[1, 0], [0, 1]],
         mha_wv = [[1, 0], [0, 1]], mha_wo = [[1, 0], [0, 1]],
         mha_dropout = \<lparr>dropout_p = 0, dropout_training = True\<rparr>\<rparr>
        [[[1, 2], [3, 4]]] [[[1, 2], [3, 4]]] [[[1, 2], [7, 9]]] (PyTensor [[[[1, 0]]]])
      = Inl TypeError"
  by (simp add: MultiHeadAttentionBlock_init_def Dropout_init_def
      MultiHeadAttentionBlock_forward_def linear_def dot_def view_heads_def upt_0_1
      attention_module_mask matmul_qk_def broadcast2_def qk_scores_def)

text \<open>
  Claim C2 says that \<^verbatim>\<open>forward\<close> with an all-ones mask returns the same result as with
  \<^verbatim>\<open>mask=None\<close>. For the static method an all-ones mask is indeed no mask (lemma
  \<open>attention_all_ones_mask\<close>). \<^verbatim>\<open>forward\<close> returns no result in either case: both calls
  raise the TypeError of \<^verbatim>\<open>masked_fill\<close>.
\<close>

theorem MultiHeadAttentionBlock_forward_all_ones_mask_raises:
  "MultiHeadAttentionBlock_forward
        \<lparr>mha_d_model = 2, mha_h = 1, mha_d_k = 2,
         mha_wq = [[1, 0], [0, 1]], mha_wk = [[1, 0], [0, 1]],
         mha_wv = [[1, 0], [0, 1]], mha_wo = [[1, 0], [0, 1]],
         mha_dropout = \<lparr>dropout_p = 0, dropout_training = True\<rparr>\<rparr>
        [[[1, 2], [3, 4]]] [[[1, 2], [3, 4]]] [[[1, 2], [3, 4]]] (PyTensor [[[[1, 1], [1, 1]]]])
      = Inl TypeError
   \<and> MultiHeadAttentionBlock_forward
        \<lparr>mha_d_model = 2, mha_h = 1, mha_d_k = 2,
         mha_wq = [[1, 0], [0, 1]], mha_wk = [[1, 0], [0, 1]],
         mha_wv = [[1, 0], [0, 1]], mha_wo = [[1, 0], [0, 1]],
         mha_dropout = \<lparr>dropout_p = 0, dropout_training = True\<rparr>\<rparr>
        [[[1, 2], [3, 4]]] [[[1, 2], [3, 4]]] [[[1, 2], [3, 4]]] PyNone
      = Inl TypeError"
  by (simp add: MultiHeadAttentionBlock_forward_def linear_def dot_def view_heads_def upt_0_1
      attention_module_mask matmul_qk_def broadcast2_def qk_scores_def)

text \<open>
  Claim C4 says that the construction with \<open>d_model = 10\<close>, \<open>h = 3\<close> fails at once, that the
  construction with \<open>d_model = 8\<close>, \<open>h = 4\<close> succeeds, and that \<^verbatim>\<open>forward\<close> of that block
  produces an output of shape \<open>(batch, seq_len, 8)\<close>. The first two parts hold: the
  assertion fails for 10 and 3, and the block for 8 and 4 is built with \<open>d_k = 2\<close>. The
  third does not: on an input of shape \<open>(1, 1, 8)\<close> the call of \<^verbatim>\<open>forward\<close> raises the
  TypeError of \<^verbatim>\<open>masked_fill\<close> and produces no output.
\<close>

theorem MultiHeadAttentionBlock_8_4_forward_raises:
  "MultiHeadAttentionBlock_init 10 3 dropout wq wk wv wo = Inl AssertionError
   \<and> MultiHeadAttentionBlock_init 8 4 0
        (replicate 8 [1, 1, 1, 1, 1, 1, 1, 1]) (replicate 8 [1, 1, 1, 1, 1, 1, 1, 1])
        (replicate 8 [1, 1, 1, 1, 1, 1, 1, 1]) (replicate 8 [1, 1, 1, 1, 1, 1, 1, 1])
     = Inr \<lparr>mha_d_model = 8, mha_h = 4, mha_d_k = 2,
            mha_wq = replicate 8 [1, 1, 1, 1, 1, 1, 1, 1],
            mha_wk = replicate 8 [1, 1, 1, 1, 1, 1, 1, 1],
            mha_wv = replicate 8 [1, 1, 1, 1, 1, 1, 1, 1],
            mha_wo = replicate 8 [1, 1, 1, 1, 1, 1, 1, 1],
            mha_dropout = \<lparr>dropout_p = 0, dropout_training = True\<rparr>\<rparr>
   \<and> MultiHeadAttentionBlock_forward
        \<lparr>mha_d_model = 8, mha_h = 4, mha_d_k = 2,
         mha_wq = replicate 8 [1, 1, 1, 1, 1, 1, 1, 1],
         mha_wk = replicate 8 [1, 1, 1, 1, 1, 1, 1, 1],
         mha_wv = replicate 8 [1, 1, 1, 1, 1, 1, 1, 1],
         mha_wo = replicate 8 [1, 1, 1, 1, 1, 1, 1, 1],
         mha_dropout = \<lparr>dropout_p = 0, dropout_training = True\<rparr>\<rparr>
        [[[1, 0, 0, 0, 0, 0, 0, 0]]] [[[1, 0, 0, 0, 0, 0, 0, 0]]] [[[1, 0, 0, 0, 0, 0, 0, 0]]]
        PyNone
      = Inl TypeError"
  by (simp add: MultiHeadAttentionBlock_init_def Dropout_init_def
      MultiHeadAttentionBlock_forward_def linear_def dot_def view_heads_def upt_0_4
      attention_module_mask matmul_qk_def broadcast2_def qk_scores_def)

subsection \<open>The encoder pipeline\<close>

text \<open>
  The stages that can be built do not depend on the samples of their dropout layers when
  the probability is 0.
\<close>

lemma Dropout_forward_p_0: "dropout_p d = 0 \<Longrightarrow> Dropout_forward d keep x = x"
  by (simp add: Dropout_forward_def)

lemma PositionalEncoding_forward_deterministic:
  "dropout_p (pe_dropout m) = 0 \<Longrightarrow>
   PositionalEncoding_forward m keep x = PositionalEncoding_forward m keep' x"
  by (simp add: PositionalEncoding_forward_def Dropout_forward_p_0)

text \<open>
  Claim C3 says that for \<open>d_model = 4\<close>, \<open>seq_len = 4\<close> and dropout 0 the pipeline of
  \<^verbatim>\<open>InputEmbedding\<close>, \<^verbatim>\<open>PositionalEncoding\<close>, one \<^verbatim>\<open>EncoderBlock\<close> and the final
  normalisation of the \<^verbatim>\<open>Encoder\<close> produces the same output on repeated runs. The
  pipeline produces no output at all: the embedding, the positional encoding, the attention
  block and the feed-forward block are built, whatever their parameter values, and the
  constructor of the \<^verbatim>\<open>EncoderBlock\<close> then raises a TypeError.
\<close>

theorem encoder_pipeline_cannot_be_built:
  "\<exists>emb pos attn ff.
     InputEmbedding_init 4 10 table = Inr emb
   \<and> PositionalEncoding_init 4 4 0 = Inr pos
   \<and> MultiHeadAttentionBlock_init 4 2 0 wq wk wv wo = Inr attn
   \<and> PositionWiseFeedForward_init 4 8 0 w1 b1 w2 b2 = Inr ff
   \<and> EncoderBlock_init 4 attn ff 0 = Inl TypeError"
proof -
  have "\<exists>pos. PositionalEncoding_init 4 4 0 = Inr pos"
    using PositionalEncoding_init_even [of 4 4 0] by simp
  then show ?thesis
    by (auto simp add: InputEmbedding_init_def MultiHeadAttentionBlock_init_def Dropout_init_def
        PositionWiseFeedForward_init_def EncoderBlock_init_def upt_0_2)
qed

end
